theory Spec2Isabelle
  imports Main
begin

section \<open>The Wikipedia question answerer of a10.py\<close>

text \<open>
  The program reads queries, matches each one against a table of patterns and calls the
  handler bound to the first pattern that matches. A handler looks a topic up on Wikipedia,
  takes the text of the page's first infobox, cleans it and applies a regular expression.

  Text is modelled as \<^typ>\<open>string\<close>. A character of the model is the Unicode code point
  of its number, so the model covers the text whose code points are below 256 (ASCII and the
  Latin-1 supplement), and the string operations of Python are modelled on all of these; a
  code point from 256 on has no character in the model. Every character outside ASCII is
  non-printable for \<open>clean_text\<close>, as it is in Python.
\<close>

subsection \<open>Exceptions\<close>

text \<open>
  The exceptions the program raises itself (\<open>LookupError\<close>, \<open>AttributeError\<close>,
  \<open>KeyboardInterrupt\<close>), the two that indexing and \<open>input\<close> raise, and one constructor for
  whatever the Wikipedia library raises. A computation that may raise returns
  \<open>py_error + 'a\<close>, with \<open>Inl\<close> for the exception.
\<close>

datatype py_error =
    LookupError string
  | AttributeError string
  | IndexError
  | KeyboardInterrupt
  | EOFError
  | LibraryError string

definition bind_err :: "py_error + 'a \<Rightarrow> ('a \<Rightarrow> py_error + 'b) \<Rightarrow> py_error + 'b" where
  "bind_err r f = (case r of Inl e \<Rightarrow> Inl e | Inr v \<Rightarrow> f v)"

subsection \<open>String operations of Python\<close>

text \<open>\<open>str.isspace\<close> on the code points below 256: tab, newline, vertical tab, form feed,
  carriage return, the four separators \<open>0x1C\<close> to \<open>0x1F\<close>, the space, the next-line
  character \<open>0x85\<close> and the no-break space \<open>0xA0\<close>.\<close>

definition isspace :: "char \<Rightarrow> bool" where
  "isspace c \<longleftrightarrow> c \<in> set [CHR 0x09, CHR 0x0A, CHR 0x0B, CHR 0x0C, CHR 0x0D,
                          CHR 0x1C, CHR 0x1D, CHR 0x1E, CHR 0x1F, CHR '' '',
                          CHR 0x85, CHR 0xA0]"

definition ascii_uppercase :: string where
  "ascii_uppercase = ''ABCDEFGHIJKLMNOPQRSTUVWXYZ''"

definition ascii_lowercase :: string where
  "ascii_lowercase = ''abcdefghijklmnopqrstuvwxyz''"

text \<open>The upper-case letters of the Latin-1 supplement, \<open>0xC0\<close> to \<open>0xDE\<close> without the
  multiplication sign \<open>0xD7\<close>, and their lower-case letters, \<open>0x20\<close> above them. With the
  ASCII letters they are all the letters below 256 that \<open>str.lower\<close> changes.\<close>

definition latin1_uppercase :: string where
  "latin1_uppercase = [
      CHR 0xC0, CHR 0xC1, CHR 0xC2, CHR 0xC3, CHR 0xC4, CHR 0xC5, CHR 0xC6, CHR 0xC7,
      CHR 0xC8, CHR 0xC9, CHR 0xCA, CHR 0xCB, CHR 0xCC, CHR 0xCD, CHR 0xCE, CHR 0xCF,
      CHR 0xD0, CHR 0xD1, CHR 0xD2, CHR 0xD3, CHR 0xD4, CHR 0xD5, CHR 0xD6, CHR 0xD8,
      CHR 0xD9, CHR 0xDA, CHR 0xDB, CHR 0xDC, CHR 0xDD, CHR 0xDE]"

definition latin1_lowercase :: string where
  "latin1_lowercase = [
      CHR 0xE0, CHR 0xE1, CHR 0xE2, CHR 0xE3, CHR 0xE4, CHR 0xE5, CHR 0xE6, CHR 0xE7,
      CHR 0xE8, CHR 0xE9, CHR 0xEA, CHR 0xEB, CHR 0xEC, CHR 0xED, CHR 0xEE, CHR 0xEF,
      CHR 0xF0, CHR 0xF1, CHR 0xF2, CHR 0xF3, CHR 0xF4, CHR 0xF5, CHR 0xF6, CHR 0xF8,
      CHR 0xF9, CHR 0xFA, CHR 0xFB, CHR 0xFC, CHR 0xFD, CHR 0xFE]"

definition uppercase :: string where
  "uppercase = ascii_uppercase @ latin1_uppercase"

definition lowercase :: string where
  "lowercase = ascii_lowercase @ latin1_lowercase"

definition lower_char :: "char \<Rightarrow> char" where
  "lower_char c = (case map_of (zip uppercase lowercase) c of
                     None \<Rightarrow> c | Some d \<Rightarrow> d)"

text \<open>\<open>s.lower()\<close>.\<close>

definition str_lower :: "string \<Rightarrow> string" where
  "str_lower s = map lower_char s"

text \<open>\<open>s.replace(old, new)\<close> for an \<open>old\<close> of one character.\<close>

definition str_replace :: "char \<Rightarrow> string \<Rightarrow> string \<Rightarrow> string" where
  "str_replace old new s = concat (map (\<lambda>c. if c = old then new else [c]) s)"

text \<open>\<open>s.split()\<close>: the maximal runs of characters that are not whitespace. The first
  argument of \<open>split_from\<close> is the word read so far.\<close>

fun split_from :: "string \<Rightarrow> string \<Rightarrow> string list" where
  "split_from cur [] = (if cur = [] then [] else [cur])"
| "split_from cur (c # cs) =
     (if isspace c then (if cur = [] then split_from [] cs else cur # split_from [] cs)
      else split_from (cur @ [c]) cs)"

definition str_split :: "string \<Rightarrow> string list" where
  "str_split s = split_from [] s"

text \<open>\<open>sep.join(xs)\<close>.\<close>

fun str_join :: "string \<Rightarrow> string list \<Rightarrow> string" where
  "str_join sep [] = []"
| "str_join sep [x] = x"
| "str_join sep (x # y # ys) = x @ sep @ str_join sep (y # ys)"

text \<open>\<open>s.strip()\<close>.\<close>

definition str_strip :: "string \<Rightarrow> string" where
  "str_strip s = rev (dropWhile isspace (rev (dropWhile isspace s)))"

text \<open>\<open>c in string.printable\<close>: the 95 characters from the space to the tilde, and
  tab, newline, vertical tab, form feed and carriage return.\<close>

definition printable :: "char \<Rightarrow> bool" where
  "printable c \<longleftrightarrow> (let n = (of_char c :: nat) in (32 \<le> n \<and> n \<le> 126) \<or> (9 \<le> n \<and> n \<le> 13))"

text \<open>\<open>re.sub(c+, c, s)\<close> for a character \<open>c\<close>: every maximal run of \<open>c\<close> becomes one
  \<open>c\<close>.\<close>

fun sub_runs :: "char \<Rightarrow> string \<Rightarrow> string" where
  "sub_runs c [] = []"
| "sub_runs c [x] = [x]"
| "sub_runs c (x # y # zs) =
     (if x = c \<and> y = c then sub_runs c (y # zs) else x # sub_runs c (y # zs))"

subsection \<open>The segment matcher\<close>

text \<open>
  Modelled from the spec: the function \<open>match\<close> of the module \<open>match\<close>, which a10.py
  imports (\<open>from match import match\<close>) and which is not among the sources. The definition
  follows section 4.1 of the specification: an empty pattern matches the empty token list
  only; a literal must equal the first token; a wildcard takes at least one token, the
  shortest split whose remainder matches is taken, and the capture is the flat list of the
  tokens the wildcards took, in order. The wildcard token is \<open>%\<close>, as the patterns of
  \<open>pa_list\<close> write it. \<open>None\<close> is the no-match result.

  \<open>split_search rest cap ts\<close> is the split search of one wildcard that has taken \<open>cap\<close>
  so far, \<open>rest\<close> being the matcher of the pattern after the wildcard.
\<close>

definition wildcard :: string where
  "wildcard = ''%''"

fun split_search ::
  "(string list \<Rightarrow> string list option) \<Rightarrow> string list \<Rightarrow> string list \<Rightarrow> string list option"
where
  "split_search rest cap [] = map_option (\<lambda>c. cap @ c) (rest [])"
| "split_search rest cap (t # ts) =
     (case rest (t # ts) of
        Some c \<Rightarrow> Some (cap @ c)
      | None \<Rightarrow> split_search rest (cap @ [t]) ts)"

primrec match :: "string list \<Rightarrow> string list \<Rightarrow> string list option" where
  "match [] = (\<lambda>tokens. if tokens = [] then Some [] else None)"
| "match (p # ps) = (\<lambda>tokens.
     if p = wildcard then
       (case tokens of
          [] \<Rightarrow> None
        | t # ts \<Rightarrow> split_search (match ps) [t] ts)
     else
       (case tokens of
          [] \<Rightarrow> None
        | t # ts \<Rightarrow> if t = p then match ps ts else None))"

subsection \<open>The outside world\<close>

text \<open>
  The libraries the program calls are parameters of the model:
  \<^item> \<open>wikipedia_search title\<close> is \<open>wikipedia.search(title)\<close>;
  \<^item> \<open>page_html title\<close> is \<open>WikipediaPage(title).html()\<close>;
  \<^item> \<open>infobox_texts html\<close> is the list of the \<open>.text\<close> of the elements that
    \<open>BeautifulSoup(html, "html.parser").find_all(class_="infobox")\<close> returns;
  \<^item> \<open>re_search pattern text\<close> is
    \<open>re.compile(pattern, re.DOTALL | re.IGNORECASE).search(text)\<close>, a match object being
    the function from a group to its text.
\<close>

datatype group_id = Name string | Index nat

type_synonym re_match = "group_id \<Rightarrow> string"

record world =
  wikipedia_search :: "string \<Rightarrow> py_error + string list"
  page_html :: "string \<Rightarrow> py_error + string"
  infobox_texts :: "string \<Rightarrow> string list"
  re_search :: "string \<Rightarrow> string \<Rightarrow> re_match option"

subsection \<open>Fact extraction\<close>

definition get_page_html :: "world \<Rightarrow> string \<Rightarrow> py_error + string" where
  "get_page_html w title =
     bind_err (wikipedia_search w title) (\<lambda>results.
       case results of
         [] \<Rightarrow> Inl IndexError
       | r # _ \<Rightarrow> page_html w r)"

definition get_first_infobox_text :: "world \<Rightarrow> string \<Rightarrow> py_error + string" where
  "get_first_infobox_text w html =
     (case infobox_texts w html of
        [] \<Rightarrow> Inl (LookupError ''Page has no infobox'')
      | r # _ \<Rightarrow> Inr r)"

definition clean_text :: "string \<Rightarrow> string" where
  "clean_text text =
     (let only_ascii = map (\<lambda>char. if printable char then char else CHR '' '') text;
          no_dup_spaces = sub_runs (CHR '' '') only_ascii;
          no_dup_newlines = sub_runs (CHR 0x0A) no_dup_spaces
      in no_dup_newlines)"

text \<open>The text normalisation as the specification words it: non-printable characters are
  stripped, then runs of spaces and runs of newlines are collapsed.\<close>

definition clean_text_spec :: "string \<Rightarrow> string" where
  "clean_text_spec text = sub_runs (CHR 0x0A) (sub_runs (CHR '' '') (filter printable text))"

definition get_match :: "world \<Rightarrow> string \<Rightarrow> string \<Rightarrow> string \<Rightarrow> py_error + re_match" where
  "get_match w text pattern error_text =
     (case re_search w pattern text of
        None \<Rightarrow> Inl (AttributeError error_text)
      | Some m \<Rightarrow> Inr m)"

text \<open>The infobox text of a topic, cleaned: the first line of every \<open>get_\<close> function.\<close>

definition infobox_text_of :: "world \<Rightarrow> string \<Rightarrow> py_error + string" where
  "infobox_text_of w title =
     bind_err (get_page_html w title) (\<lambda>html.
     bind_err (get_first_infobox_text w html) (\<lambda>box.
     Inr (clean_text box)))"

text \<open>The regular expressions, a backslash being \<open>bsl\<close>.\<close>

definition bsl :: string where
  "bsl = [CHR 0x5C]"

definition polar_radius_pattern :: string where
  "polar_radius_pattern =
     ''(?:Polar radius.*?)(?: ?['' @ bsl @ ''d]+ )?(?P<radius>['' @ bsl @ ''d,.]+)(?:.*?)km''"

definition birth_date_pattern :: string where
  "birth_date_pattern =
     ''(?:Born'' @ bsl @ ''D*)(?P<birth>'' @ bsl @ ''d{4}-'' @ bsl @ ''d{2}-'' @ bsl @ ''d{2})''"

definition population_pattern :: string where
  "population_pattern =
     ''(?:Population.*?)(?P<population>['' @ bsl @ ''d,]+)(?:.*?)'' @ bsl @ ''s*people''"

definition official_language_pattern :: string where
  "official_language_pattern =
     ''(?:Official'' @ bsl @ ''s*languages.*?)(?P<languages>['' @ bsl @ ''w'' @ bsl
       @ ''s,/-]+)(?:.*?)'' @ bsl @ ''n''"

definition birth_place_pattern :: string where
  "birth_place_pattern =
     ''in'' @ bsl @ ''s*([A-Za-z'' @ bsl @ ''s]+),'' @ bsl @ ''s*([A-Za-z'' @ bsl @ ''s]+)''"

definition get_polar_radius :: "world \<Rightarrow> string \<Rightarrow> py_error + string" where
  "get_polar_radius w planet_name =
     bind_err (infobox_text_of w planet_name) (\<lambda>infobox_text.
     bind_err (get_match w infobox_text polar_radius_pattern
                 ''Page infobox has no polar radius information'') (\<lambda>m.
     Inr (m (Name ''radius''))))"

definition get_birth_date :: "world \<Rightarrow> string \<Rightarrow> py_error + string" where
  "get_birth_date w name =
     bind_err (infobox_text_of w name) (\<lambda>infobox_text.
     bind_err (get_match w infobox_text birth_date_pattern
                 ''Page infobox has no birth information (at least none in xxxx-xx-xx format)'')
       (\<lambda>m.
     Inr (m (Name ''birth''))))"

definition get_population :: "world \<Rightarrow> string \<Rightarrow> py_error + string" where
  "get_population w location_name =
     bind_err (infobox_text_of w location_name) (\<lambda>infobox_text.
     bind_err (get_match w infobox_text population_pattern
                 ''Page infobox has no population information'') (\<lambda>m.
     Inr (m (Name ''population''))))"

definition get_official_language :: "world \<Rightarrow> string \<Rightarrow> py_error + string" where
  "get_official_language w country_name =
     bind_err (infobox_text_of w country_name) (\<lambda>infobox_text.
     bind_err (get_match w infobox_text official_language_pattern
                 ''Page infobox has no official language information'') (\<lambda>m.
     Inr (m (Name ''languages''))))"

definition get_birth_place :: "world \<Rightarrow> string \<Rightarrow> py_error + string" where
  "get_birth_place w name =
     bind_err (infobox_text_of w name) (\<lambda>infobox_text.
     bind_err (get_match w infobox_text birth_place_pattern
                 ''Page infobox has no birth place information'') (\<lambda>m.
     Inr (str_strip (m (Index 1)) @ '', '' @ str_strip (m (Index 2)))))"

subsection \<open>The actions\<close>

definition birth_date :: "world \<Rightarrow> string list \<Rightarrow> py_error + string list" where
  "birth_date w matches =
     bind_err (get_birth_date w (str_join '' '' matches)) (\<lambda>x. Inr [x])"

definition polar_radius :: "world \<Rightarrow> string list \<Rightarrow> py_error + string list" where
  "polar_radius w matches =
     (case matches of
        [] \<Rightarrow> Inl IndexError
      | m # _ \<Rightarrow> bind_err (get_polar_radius w m) (\<lambda>x. Inr [x]))"

definition population :: "world \<Rightarrow> string list \<Rightarrow> py_error + string list" where
  "population w matches =
     bind_err (get_population w (str_join '' '' matches)) (\<lambda>x. Inr [x])"

definition official_language :: "world \<Rightarrow> string list \<Rightarrow> py_error + string list" where
  "official_language w matches =
     bind_err (get_official_language w (str_join '' '' matches)) (\<lambda>x. Inr [x])"

definition birth_place :: "world \<Rightarrow> string list \<Rightarrow> py_error + string list" where
  "birth_place w matches =
     bind_err (get_birth_place w (str_join '' '' matches)) (\<lambda>x. Inr [x])"

definition bye_action :: "world \<Rightarrow> string list \<Rightarrow> py_error + string list" where
  "bye_action w dummy = Inl KeyboardInterrupt"

text \<open>The table holds references to the action functions: \<open>action\<close> names the six functions,
  and \<open>call w a\<close> is the call of the function \<open>a\<close> names.\<close>

datatype action =
    Birth_date | Polar_radius | Population | Official_language | Birth_place | Bye_action

fun call :: "world \<Rightarrow> action \<Rightarrow> string list \<Rightarrow> py_error + string list" where
  "call w Birth_date = birth_date w"
| "call w Polar_radius = polar_radius w"
| "call w Population = population w"
| "call w Official_language = official_language w"
| "call w Birth_place = birth_place w"
| "call w Bye_action = bye_action w"

subsection \<open>The pattern-action list and its search\<close>

definition pa_list :: "(string list \<times> action) list" where
  "pa_list =
     [(str_split ''when was % born'', Birth_date),
      (str_split ''what is the polar radius of %'', Polar_radius),
      ([''bye''], Bye_action)]"

text \<open>
  The loop of \<open>search_pa_list\<close> over a table \<open>tbl\<close>, \<open>run act\<close> being the call of the action
  \<open>act\<close>. The first component of the result is the list of the calls of actions made, each
  with its argument; the second is what the function returns or raises.
\<close>

fun search_table ::
  "('a \<Rightarrow> string list \<Rightarrow> py_error + string list) \<Rightarrow> (string list \<times> 'a) list \<Rightarrow> string list
     \<Rightarrow> ('a \<times> string list) list \<times> (py_error + string list)"
where
  "search_table run [] src = ([], Inr [''I don't understand''])"
| "search_table run ((pat, act) # rest) src =
     (case match pat src of
        Some mat \<Rightarrow>
          ([(act, mat)],
           bind_err (run act mat) (\<lambda>answer.
             Inr (if answer \<noteq> [] then answer else [''No answers''])))
      | None \<Rightarrow> search_table run rest src)"

definition search_pa_list ::
  "world \<Rightarrow> string list \<Rightarrow> (action \<times> string list) list \<times> (py_error + string list)" where
  "search_pa_list w src = search_table (call w) pa_list src"

subsection \<open>The query loop\<close>

text \<open>
  What the user does at a prompt is an \<open>event\<close>: a line typed, or Ctrl-C; the end of the
  list of events is the end of the input, where \<open>input\<close> raises \<open>EOFError\<close>. What the program
  writes is a list of \<open>out\<close>: \<open>Print s\<close> for \<open>print(s)\<close>, which writes \<open>s\<close> and a newline,
  and \<open>Prompt s\<close> for the prompt of \<open>input(s)\<close>.

  \<open>loop\<close> is the \<open>while True\<close> loop: it ends by \<open>break\<close> (\<open>Exited\<close>) or by an exception
  that the \<open>except\<close> clause does not catch (\<open>Uncaught\<close>).
\<close>

datatype event = Line string | CtrlC

datatype out = Print string | Prompt string

datatype outcome = Exited | Uncaught py_error

definition tokenize :: "string \<Rightarrow> string list" where
  "tokenize line = str_split (str_lower (str_replace (CHR ''?'') [] line))"

fun loop :: "world \<Rightarrow> event list \<Rightarrow> out list \<times> outcome" where
  "loop w [] = ([Print [], Prompt ''Your query? ''], Exited)"
| "loop w (CtrlC # rest) = ([Print [], Prompt ''Your query? ''], Exited)"
| "loop w (Line line # rest) =
     (let query = tokenize line in
      case snd (search_pa_list w query) of
        Inl e \<Rightarrow>
          if e = KeyboardInterrupt \<or> e = EOFError
          then ([Print [], Prompt ''Your query? ''], Exited)
          else ([Print [], Prompt ''Your query? ''], Uncaught e)
      | Inr answers \<Rightarrow>
          (case loop w rest of
             (later, r) \<Rightarrow> ([Print [], Prompt ''Your query? ''] @ map Print answers @ later, r)))"

definition query_loop :: "world \<Rightarrow> event list \<Rightarrow> out list \<times> outcome" where
  "query_loop w events =
     (case loop w events of
        (written, Exited) \<Rightarrow>
          (Print ''Welcome to the movie database!\<newline>'' # written
             @ [Print ''\<newline>So long!\<newline>''], Exited)
      | (written, Uncaught e) \<Rightarrow>
          (Print ''Welcome to the movie database!\<newline>'' # written, Uncaught e))"

text \<open>What the loop writes for a list of lines, each of which the search answers.\<close>

definition replies :: "world \<Rightarrow> string list \<Rightarrow> out list" where
  "replies w lines =
     concat (map (\<lambda>line.
       [Print [], Prompt ''Your query? '']
         @ map Print (case snd (search_pa_list w (tokenize line)) of
                        Inl e \<Rightarrow> [] | Inr answers \<Rightarrow> answers)) lines)"

subsection \<open>Three worlds for the examples\<close>

text \<open>In \<open>bare_world\<close> every title has a page and no page has an infobox. In
  \<open>unlabelled_world\<close> every page has one infobox, which holds none of the labels, so that no
  regular expression of the program matches its text. In \<open>turing_world\<close> the infobox holds
  a birth date, which the birth-date expression finds.\<close>

definition bare_world :: world where
  "bare_world =
     \<lparr>wikipedia_search = (\<lambda>title. Inr [title]),
      page_html = (\<lambda>title. Inr ''a page with no box''),
      infobox_texts = (\<lambda>html. []),
      re_search = (\<lambda>pattern text. None)\<rparr>"

definition unlabelled_world :: world where
  "unlabelled_world =
     \<lparr>wikipedia_search = (\<lambda>title. Inr [title]),
      page_html = (\<lambda>title. Inr ''a page with a box''),
      infobox_texts = (\<lambda>html. [''Occupation  Mathematician'']),
      re_search = (\<lambda>pattern text. None)\<rparr>"

definition turing_world :: world where
  "turing_world =
     \<lparr>wikipedia_search = (\<lambda>title. Inr [title]),
      page_html = (\<lambda>title. Inr ''a page with a box''),
      infobox_texts = (\<lambda>html. [''Born 1912-06-23'']),
      re_search = (\<lambda>pattern text.
        if pattern = birth_date_pattern \<and> text = ''Born 1912-06-23''
        then Some (\<lambda>g. ''1912-06-23'') else None)\<rparr>"

section \<open>Properties\<close>

subsection \<open>The segment matcher\<close>

lemma split_search_Some:
  "split_search rest cap ts = Some c \<longleftrightarrow>
     (\<exists>k c'. k \<le> length ts \<and> rest (drop k ts) = Some c' \<and> c = cap @ take k ts @ c'
        \<and> (\<forall>j<k. rest (drop j ts) = None))"
proof (induction ts arbitrary: cap)
  case Nil
  then show ?case by auto
next
  case (Cons t ts)
  show ?case
  proof (cases "rest (t # ts)")
    case (Some c0)
    show ?thesis
    proof
      assume "split_search rest cap (t # ts) = Some c"
      with Some have "c = cap @ c0" by simp
      with Some show "\<exists>k c'. k \<le> length (t # ts) \<and> rest (drop k (t # ts)) = Some c'
          \<and> c = cap @ take k (t # ts) @ c' \<and> (\<forall>j<k. rest (drop j (t # ts)) = None)"
        by (intro exI[of _ 0] exI[of _ c0]) simp
    next
      assume "\<exists>k c'. k \<le> length (t # ts) \<and> rest (drop k (t # ts)) = Some c'
          \<and> c = cap @ take k (t # ts) @ c' \<and> (\<forall>j<k. rest (drop j (t # ts)) = None)"
      then obtain k c' where k: "rest (drop k (t # ts)) = Some c'" "c = cap @ take k (t # ts) @ c'"
        "\<forall>j<k. rest (drop j (t # ts)) = None" by blast
      have "k = 0"
      proof (rule ccontr)
        assume "k \<noteq> 0"
        then have "rest (drop 0 (t # ts)) = None" using k(3) by blast
        with Some show False by simp
      qed
      with k Some show "split_search rest cap (t # ts) = Some c" by simp
    qed
  next
    case None
    have step: "split_search rest cap (t # ts) = split_search rest (cap @ [t]) ts"
      using None by simp
    show ?thesis
    proof
      assume "split_search rest cap (t # ts) = Some c"
      then have "split_search rest (cap @ [t]) ts = Some c" using step by simp
      then obtain k c' where k: "k \<le> length ts" "rest (drop k ts) = Some c'"
        "c = (cap @ [t]) @ take k ts @ c'" "\<forall>j<k. rest (drop j ts) = None"
        using Cons.IH by blast
      have "\<forall>j<Suc k. rest (drop j (t # ts)) = None"
      proof (intro allI impI)
        fix j assume "j < Suc k"
        then show "rest (drop j (t # ts)) = None"
          using None k(4) by (cases j) auto
      qed
      with k show "\<exists>k c'. k \<le> length (t # ts) \<and> rest (drop k (t # ts)) = Some c'
          \<and> c = cap @ take k (t # ts) @ c' \<and> (\<forall>j<k. rest (drop j (t # ts)) = None)"
        by (intro exI[of _ "Suc k"] exI[of _ c']) simp
    next
      assume "\<exists>k c'. k \<le> length (t # ts) \<and> rest (drop k (t # ts)) = Some c'
          \<and> c = cap @ take k (t # ts) @ c' \<and> (\<forall>j<k. rest (drop j (t # ts)) = None)"
      then obtain k c' where k: "k \<le> length (t # ts)" "rest (drop k (t # ts)) = Some c'"
        "c = cap @ take k (t # ts) @ c'" "\<forall>j<k. rest (drop j (t # ts)) = None" by blast
      from k(2) None obtain k' where k': "k = Suc k'" by (cases k) auto
      have "\<forall>j<k'. rest (drop j ts) = None"
      proof (intro allI impI)
        fix j assume "j < k'"
        then have "Suc j < k" using k' by simp
        then have "rest (drop (Suc j) (t # ts)) = None" using k(4) by blast
        then show "rest (drop j ts) = None" by simp
      qed
      with k k' have "\<exists>k c'. k \<le> length ts \<and> rest (drop k ts) = Some c'
         \<and> c = (cap @ [t]) @ take k ts @ c' \<and> (\<forall>j<k. rest (drop j ts) = None)"
        by (intro exI[of _ k'] exI[of _ c']) simp
      then have "split_search rest (cap @ [t]) ts = Some c" using Cons.IH by blast
      then show "split_search rest cap (t # ts) = Some c" using step by simp
    qed
  qed
qed

lemma match_literals: "wildcard \<notin> set pat \<Longrightarrow> match pat ts = (if ts = pat then Some [] else None)"
  by (induction pat arbitrary: ts) (auto split: list.splits)

lemma match_wildcard_Some:
  assumes "match (wildcard # ps) tokens = Some c"
  shows "\<exists>k c'. 1 \<le> k \<and> k \<le> length tokens \<and> match ps (drop k tokens) = Some c'
           \<and> c = take k tokens @ c' \<and> (\<forall>j. 1 \<le> j \<and> j < k \<longrightarrow> match ps (drop j tokens) = None)"
proof (cases tokens)
  case Nil
  with assms show ?thesis by simp
next
  case (Cons t ts)
  with assms have "split_search (match ps) [t] ts = Some c" by simp
  then obtain k c' where k: "k \<le> length ts" "match ps (drop k ts) = Some c'"
    "c = [t] @ take k ts @ c'" "\<forall>j<k. match ps (drop j ts) = None"
    using split_search_Some[of "match ps" "[t]" ts c] by blast
  have "\<forall>j. 1 \<le> j \<and> j < Suc k \<longrightarrow> match ps (drop j tokens) = None"
  proof (intro allI impI)
    fix j assume j: "1 \<le> j \<and> j < Suc k"
    then obtain j' where "j = Suc j'" "j' < k" by (cases j) auto
    then show "match ps (drop j tokens) = None" using k(4) Cons by simp
  qed
  with k Cons show ?thesis
    by (intro exI[of _ "Suc k"] exI[of _ c']) simp
qed

text \<open>
  C5. A pattern that holds no wildcard matches a token list exactly when the token list is the
  pattern, token for token, and the capture is then empty.
\<close>
theorem match_without_wildcard:
  "wildcard \<notin> set pattern \<Longrightarrow>
     (match pattern tokens \<noteq> None \<longleftrightarrow> tokens = pattern)
     \<and> (match pattern tokens = Some capture \<longrightarrow> capture = [])"
  by (simp add: match_literals)

theorem match_without_wildcard_witness:
  "wildcard \<notin> set [''when'', ''born'']
   \<and> match [''when'', ''born''] [''when'', ''born''] = Some []
   \<and> match [''when'', ''born''] [''when'', ''was''] = None"
  using match_without_wildcard [of "[''when'', ''born'']" "[''when'', ''born'']" "[]"]
    match_without_wildcard [of "[''when'', ''born'']" "[''when'', ''was'']" "[]"]
  by (simp add: wildcard_def)

text \<open>
  C6. A wildcard takes at least one token: a pattern that starts with a wildcard does not
  match the empty token list (the pattern of a single wildcard in particular), and when it
  matches, the wildcard has taken the first \<open>k\<close> tokens for some \<open>k\<close> of at least one, the
  rest of the pattern matching what is left.
\<close>
theorem wildcard_takes_a_token:
  "match [wildcard] [] = None
   \<and> match (wildcard # ps) [] = None
   \<and> (match (wildcard # ps) tokens = Some capture \<longrightarrow>
        (\<exists>k c'. 1 \<le> k \<and> k \<le> length tokens \<and> match ps (drop k tokens) = Some c'
           \<and> capture = take k tokens @ c'))"
proof -
  have "match (wildcard # ps) tokens = Some capture \<longrightarrow>
        (\<exists>k c'. 1 \<le> k \<and> k \<le> length tokens \<and> match ps (drop k tokens) = Some c'
           \<and> capture = take k tokens @ c')"
  proof
    assume "match (wildcard # ps) tokens = Some capture"
    from match_wildcard_Some [OF this]
    show "\<exists>k c'. 1 \<le> k \<and> k \<le> length tokens \<and> match ps (drop k tokens) = Some c'
           \<and> capture = take k tokens @ c'" by blast
  qed
  then show ?thesis by simp
qed

theorem wildcard_takes_a_token_witness:
  "match (wildcard # [''born'']) [''ada'', ''lovelace'', ''born''] = Some [''ada'', ''lovelace'']
   \<and> (\<exists>k c'. 1 \<le> k \<and> k \<le> length [''ada'', ''lovelace'', ''born'']
         \<and> match [''born''] (drop k [''ada'', ''lovelace'', ''born'']) = Some c'
         \<and> [''ada'', ''lovelace''] = take k [''ada'', ''lovelace'', ''born''] @ c')
   \<and> match [wildcard] [] = None"
proof -
  have m: "match (wildcard # [''born'']) [''ada'', ''lovelace'', ''born''] = Some [''ada'', ''lovelace'']"
    by (simp add: wildcard_def)
  from wildcard_takes_a_token [of "[''born'']" "[''ada'', ''lovelace'', ''born'']" "[''ada'', ''lovelace'']"] m
  show ?thesis by blast
qed

subsection \<open>The search of the pattern-action list\<close>

lemma search_table_no_match:
  "\<forall>(pat, act) \<in> set tbl. match pat src = None \<Longrightarrow>
     search_table run tbl src = ([], Inr [''I don't understand''])"
  by (induction tbl) auto

lemma search_table_first_match:
  assumes "\<forall>(p, a) \<in> set pre. match p src = None" and "match pat src = Some mat"
  shows "search_table run (pre @ (pat, act) # post) src =
           ([(act, mat)],
            bind_err (run act mat) (\<lambda>answer. Inr (if answer \<noteq> [] then answer else [''No answers''])))"
  using assms by (induction pre) auto

lemma pa_list_patterns:
  "pa_list =
     [([''when'', ''was'', ''%'', ''born''], Birth_date),
      ([''what'', ''is'', ''the'', ''polar'', ''radius'', ''of'', ''%''], Polar_radius),
      ([''bye''], Bye_action)]"
  by (simp add: pa_list_def str_split_def isspace_def)

text \<open>
  C2. When no pattern of \<open>pa_list\<close> matches the token list, \<open>search_pa_list\<close> calls no
  action and returns the list whose one element is \<open>I don't understand\<close>; it does not raise.
\<close>
theorem search_pa_list_no_match:
  "\<forall>(pat, act) \<in> set pa_list. match pat src = None \<Longrightarrow>
     search_pa_list w src = ([], Inr [''I don't understand''])"
  unfolding search_pa_list_def by (rule search_table_no_match)

theorem search_pa_list_no_match_witness:
  "match [''when'', ''was'', ''%'', ''born''] [''hello'', ''there''] = None
   \<and> match [''what'', ''is'', ''the'', ''polar'', ''radius'', ''of'', ''%''] [''hello'', ''there''] = None
   \<and> match [''bye''] [''hello'', ''there''] = None
   \<and> search_pa_list bare_world [''hello'', ''there''] = ([], Inr [''I don't understand''])"
  using search_pa_list_no_match [of "[''hello'', ''there'']" bare_world]
  by (simp add: pa_list_patterns wildcard_def)

text \<open>
  C3. When the first entry of the table whose pattern matches has an action that returns the
  list \<open>answer\<close>, the search returns the one-element list \<open>No answers\<close> if \<open>answer\<close> is
  empty and \<open>answer\<close> itself otherwise. The statement is for every table and every meaning
  \<open>run\<close> of the actions; \<open>search_pa_list w\<close> is the case of \<open>pa_list\<close> and \<open>call w\<close>.
\<close>
theorem search_table_answers:
  "tbl = pre @ (pat, act) # post \<Longrightarrow> \<forall>(p, a) \<in> set pre. match p src = None \<Longrightarrow>
   match pat src = Some mat \<Longrightarrow> run act mat = Inr answer \<Longrightarrow>
     snd (search_table run tbl src) = Inr (if answer = [] then [''No answers''] else answer)
     \<and> (tbl = pa_list \<and> run = call w \<longrightarrow>
          snd (search_pa_list w src) = Inr (if answer = [] then [''No answers''] else answer))"
proof -
  assume a: "tbl = pre @ (pat, act) # post" "\<forall>(p, a) \<in> set pre. match p src = None"
    "match pat src = Some mat" "run act mat = Inr answer"
  have "search_table run tbl src =
          ([(act, mat)],
           bind_err (run act mat) (\<lambda>answer. Inr (if answer \<noteq> [] then answer else [''No answers''])))"
    unfolding a(1) using a(2,3) by (rule search_table_first_match)
  then have r: "snd (search_table run tbl src) = Inr (if answer = [] then [''No answers''] else answer)"
    using a(4) by (simp add: bind_err_def)
  show ?thesis
  proof (intro conjI impI)
    show "snd (search_table run tbl src) = Inr (if answer = [] then [''No answers''] else answer)"
      by (rule r)
  next
    assume "tbl = pa_list \<and> run = call w"
    then show "snd (search_pa_list w src) = Inr (if answer = [] then [''No answers''] else answer)"
      using r by (simp add: search_pa_list_def)
  qed
qed

theorem search_table_answers_witness:
  "match [''%''] [''x''] = Some [''x'']
   \<and> snd (search_table (\<lambda>a m. Inr (if a = Population then [] else m))
            [([''no''], Birth_date), ([''%''], Population)] [''x''])
       = Inr [''No answers'']
   \<and> snd (search_table (\<lambda>a m. Inr (if a = Population then [] else m))
            [([''no''], Population), ([''%''], Birth_date)] [''x''])
       = Inr [''x'']
   \<and> call turing_world Birth_date [''alan'', ''turing''] = Inr [''1912-06-23'']
   \<and> snd (search_pa_list turing_world [''when'', ''was'', ''alan'', ''turing'', ''born''])
       = Inr [''1912-06-23'']"
proof -
  have m: "match [''%''] [''x''] = Some [''x'']" by (simp add: wildcard_def)
  have n: "\<forall>(p, a) \<in> set [([''no''], Birth_date)]. match p [''x''] = None"
    and n': "\<forall>(p, a) \<in> set [([''no''], Population)]. match p [''x''] = None"
    by (simp_all add: wildcard_def)
  have e: "\<forall>(p, a) \<in> set ([] :: (string list \<times> action) list).
             match p [''when'', ''was'', ''alan'', ''turing'', ''born''] = None" by simp
  have t: "pa_list = [] @ ([''when'', ''was'', ''%'', ''born''], Birth_date)
             # [([''what'', ''is'', ''the'', ''polar'', ''radius'', ''of'', ''%''], Polar_radius),
                ([''bye''], Bye_action)]"
    by (simp add: pa_list_patterns)
  have mt: "match [''when'', ''was'', ''%'', ''born''] [''when'', ''was'', ''alan'', ''turing'', ''born'']
              = Some [''alan'', ''turing'']" by (simp add: wildcard_def)
  have c: "call turing_world Birth_date [''alan'', ''turing''] = Inr [''1912-06-23'']" by code_simp
  from search_table_answers [of "[([''no''], Birth_date), ([''%''], Population)]"
      "[([''no''], Birth_date)]" "[''%'']" Population "[]" "[''x'']" "[''x'']"
      "\<lambda>a m. Inr (if a = Population then [] else m)" "[]" bare_world] n m
  have 1: "snd (search_table (\<lambda>a m. Inr (if a = Population then [] else m))
            [([''no''], Birth_date), ([''%''], Population)] [''x'']) = Inr [''No answers'']"
    by simp
  from search_table_answers [of "[([''no''], Population), ([''%''], Birth_date)]"
      "[([''no''], Population)]" "[''%'']" Birth_date "[]" "[''x'']" "[''x'']"
      "\<lambda>a m. Inr (if a = Population then [] else m)" "[''x'']" bare_world] n' m
  have 2: "snd (search_table (\<lambda>a m. Inr (if a = Population then [] else m))
            [([''no''], Population), ([''%''], Birth_date)] [''x'']) = Inr [''x'']"
    by simp
  from search_table_answers [of pa_list "[]" "[''when'', ''was'', ''%'', ''born'']" Birth_date
      "[([''what'', ''is'', ''the'', ''polar'', ''radius'', ''of'', ''%''], Polar_radius),
        ([''bye''], Bye_action)]"
      "[''when'', ''was'', ''alan'', ''turing'', ''born'']" "[''alan'', ''turing'']"
      "call turing_world" "[''1912-06-23'']" turing_world] t e mt c
  have 3: "snd (search_pa_list turing_world [''when'', ''was'', ''alan'', ''turing'', ''born''])
       = Inr [''1912-06-23'']" by simp
  from m 1 2 c 3 show ?thesis by (intro conjI)
qed

text \<open>
  C4. Whatever entries follow it in the table, and whether or not their patterns match, the
  search calls the action of the earliest entry whose pattern matches, once, with the capture
  of that pattern, and calls no other action; what it returns comes from that call alone.
  The statement is for every table and every meaning \<open>run\<close> of the actions, and
  \<open>search_pa_list w\<close> is the case of \<open>pa_list\<close> and \<open>call w\<close>: it calls the action of the
  earliest matching entry of \<open>pa_list\<close> and no other.
\<close>
theorem search_table_earliest_only:
  "tbl = pre @ (pat, act) # post \<Longrightarrow> \<forall>(p, a) \<in> set pre. match p src = None \<Longrightarrow>
   match pat src = Some mat \<Longrightarrow>
     fst (search_table run tbl src) = [(act, mat)]
     \<and> snd (search_table run tbl src) =
         bind_err (run act mat) (\<lambda>answer. Inr (if answer \<noteq> [] then answer else [''No answers'']))
     \<and> (tbl = pa_list \<and> run = call w \<longrightarrow>
          fst (search_pa_list w src) = [(act, mat)]
          \<and> snd (search_pa_list w src) =
              bind_err (call w act mat)
                (\<lambda>answer. Inr (if answer \<noteq> [] then answer else [''No answers''])))"
proof -
  assume a: "tbl = pre @ (pat, act) # post" "\<forall>(p, a) \<in> set pre. match p src = None"
    "match pat src = Some mat"
  have r: "search_table run tbl src =
          ([(act, mat)],
           bind_err (run act mat) (\<lambda>answer. Inr (if answer \<noteq> [] then answer else [''No answers''])))"
    unfolding a(1) using a(2,3) by (rule search_table_first_match)
  show ?thesis
  proof (intro conjI impI)
    show "fst (search_table run tbl src) = [(act, mat)]" by (simp add: r)
    show "snd (search_table run tbl src) =
         bind_err (run act mat) (\<lambda>answer. Inr (if answer \<noteq> [] then answer else [''No answers'']))"
      by (simp add: r)
  next
    assume "tbl = pa_list \<and> run = call w"
    with r have s: "search_pa_list w src =
          ([(act, mat)],
           bind_err (call w act mat) (\<lambda>answer. Inr (if answer \<noteq> [] then answer else [''No answers''])))"
      by (simp add: search_pa_list_def)
    show "fst (search_pa_list w src) = [(act, mat)]" by (simp add: s)
    show "snd (search_pa_list w src) =
              bind_err (call w act mat)
                (\<lambda>answer. Inr (if answer \<noteq> [] then answer else [''No answers'']))"
      by (simp add: s)
  qed
qed

theorem search_table_earliest_only_witness:
  "match [''hello''] [''bye''] = None
   \<and> match [''%''] [''bye''] = Some [''bye'']
   \<and> match [''bye''] [''bye''] = Some []
   \<and> fst (search_table (call bare_world)
            [([''hello''], Birth_date), ([''%''], Population), ([''bye''], Bye_action)] [''bye''])
       = [(Population, [''bye''])]
   \<and> match [''when'', ''was'', ''%'', ''born''] [''what'', ''is'', ''the'', ''polar'', ''radius'', ''of'', ''mars'']
       = None
   \<and> match [''what'', ''is'', ''the'', ''polar'', ''radius'', ''of'', ''%'']
        [''what'', ''is'', ''the'', ''polar'', ''radius'', ''of'', ''mars''] = Some [''mars'']
   \<and> fst (search_pa_list bare_world [''what'', ''is'', ''the'', ''polar'', ''radius'', ''of'', ''mars''])
       = [(Polar_radius, [''mars''])]
   \<and> snd (search_pa_list bare_world [''what'', ''is'', ''the'', ''polar'', ''radius'', ''of'', ''mars''])
       = Inl (LookupError ''Page has no infobox'')"
proof -
  let ?src = "[''what'', ''is'', ''the'', ''polar'', ''radius'', ''of'', ''mars'']"
  have m1: "match [''hello''] [''bye''] = None" by (simp add: wildcard_def)
  have m2: "match [''%''] [''bye''] = Some [''bye'']" by (simp add: wildcard_def)
  have m3: "match [''bye''] [''bye''] = Some []" by (simp add: wildcard_def)
  have n: "\<forall>(p, a) \<in> set [([''hello''], Birth_date)]. match p [''bye''] = None"
    using m1 by simp
  from search_table_earliest_only [of
      "[([''hello''], Birth_date), ([''%''], Population), ([''bye''], Bye_action)]"
      "[([''hello''], Birth_date)]" "[''%'']" Population "[([''bye''], Bye_action)]"
      "[''bye'']" "[''bye'']" "call bare_world" bare_world] n m2
  have 1: "fst (search_table (call bare_world)
            [([''hello''], Birth_date), ([''%''], Population), ([''bye''], Bye_action)] [''bye''])
       = [(Population, [''bye''])]" by simp
  have p1: "match [''when'', ''was'', ''%'', ''born''] ?src = None" by (simp add: wildcard_def)
  have p2: "match [''what'', ''is'', ''the'', ''polar'', ''radius'', ''of'', ''%''] ?src = Some [''mars'']"
    by (simp add: wildcard_def)
  have t: "pa_list = [([''when'', ''was'', ''%'', ''born''], Birth_date)]
             @ ([''what'', ''is'', ''the'', ''polar'', ''radius'', ''of'', ''%''], Polar_radius)
             # [([''bye''], Bye_action)]"
    by (simp add: pa_list_patterns)
  have e: "\<forall>(p, a) \<in> set [([''when'', ''was'', ''%'', ''born''], Birth_date)]. match p ?src = None"
    using p1 by simp
  have c: "call bare_world Polar_radius [''mars''] = Inl (LookupError ''Page has no infobox'')"
    by code_simp
  from search_table_earliest_only [of pa_list
      "[([''when'', ''was'', ''%'', ''born''], Birth_date)]"
      "[''what'', ''is'', ''the'', ''polar'', ''radius'', ''of'', ''%'']" Polar_radius
      "[([''bye''], Bye_action)]" ?src "[''mars'']" "call bare_world" bare_world] t e p2
  have 2: "fst (search_pa_list bare_world ?src) = [(Polar_radius, [''mars''])]"
    and 3: "snd (search_pa_list bare_world ?src) =
              bind_err (call bare_world Polar_radius [''mars''])
                (\<lambda>answer. Inr (if answer \<noteq> [] then answer else [''No answers'']))"
    by simp_all
  from 3 c have 4: "snd (search_pa_list bare_world ?src) = Inl (LookupError ''Page has no infobox'')"
    by (simp add: bind_err_def)
  from m1 m2 m3 1 p1 p2 2 4 show ?thesis by (intro conjI)
qed

lemma search_table_calls:
  "(a, m) \<in> set (fst (search_table run tbl src)) \<Longrightarrow> a \<in> snd ` set tbl"
  by (induction tbl) (auto split: option.splits)

text \<open>
  C10. \<open>pa_list\<close> has exactly three entries: the birth-date pattern with \<open>birth_date\<close>, the
  polar-radius pattern with \<open>polar_radius\<close>, and \<open>bye\<close> with \<open>bye_action\<close>. It is a
  constant, so every search of every run of the loop uses these entries, and no search ever
  calls \<open>population\<close>, \<open>official_language\<close> or \<open>birth_place\<close>.
\<close>
theorem pa_list_three_entries:
  "map fst pa_list =
     [[''when'', ''was'', ''%'', ''born''],
      [''what'', ''is'', ''the'', ''polar'', ''radius'', ''of'', ''%''],
      [''bye'']]
   \<and> map snd pa_list = [Birth_date, Polar_radius, Bye_action]
   \<and> (\<forall>(a, m) \<in> set (fst (search_pa_list w src)).
        a \<noteq> Population \<and> a \<noteq> Official_language \<and> a \<noteq> Birth_place)"
proof -
  have "\<forall>(a, m) \<in> set (fst (search_pa_list w src)).
        a \<noteq> Population \<and> a \<noteq> Official_language \<and> a \<noteq> Birth_place"
  proof (clarify)
    fix a m assume "(a, m) \<in> set (fst (search_pa_list w src))"
    then have "a \<in> snd ` set pa_list"
      unfolding search_pa_list_def by (rule search_table_calls)
    then show "a \<noteq> Population \<and> a \<noteq> Official_language \<and> a \<noteq> Birth_place"
      by (auto simp: pa_list_patterns)
  qed
  then show ?thesis by (simp add: pa_list_patterns)
qed

theorem pa_list_three_entries_witness:
  "fst (search_pa_list turing_world [''when'', ''was'', ''alan'', ''turing'', ''born''])
     = [(Birth_date, [''alan'', ''turing''])]
   \<and> Birth_date \<noteq> Population \<and> Birth_date \<noteq> Official_language \<and> Birth_date \<noteq> Birth_place
   \<and> length pa_list = 3"
  using pa_list_three_entries [of turing_world "[''when'', ''was'', ''alan'', ''turing'', ''born'']"]
  by (simp add: search_pa_list_def pa_list_patterns wildcard_def)

subsection \<open>Text normalisation\<close>

lemma sub_runs_head: "\<exists>r. sub_runs c (x # xs) = x # r"
  by (induction c "x # xs" arbitrary: x xs rule: sub_runs.induct) auto

lemma set_sub_runs: "set (sub_runs c s) \<subseteq> set s"
  by (induction c s rule: sub_runs.induct) auto

lemma successively_sub_runs:
  "successively P s \<Longrightarrow> successively P (sub_runs c s)"
proof (induction c s rule: sub_runs.induct)
  case (3 c x y zs)
  obtain r where r: "sub_runs c (y # zs) = y # r" using sub_runs_head by blast
  from 3 show ?case by (auto simp: r)
qed simp_all

lemma sub_runs_no_pair:
  "successively (\<lambda>a b. \<not> (a = c \<and> b = c)) (sub_runs c s)"
proof (induction c s rule: sub_runs.induct)
  case (3 c x y zs)
  obtain r where r: "sub_runs c (y # zs) = y # r" using sub_runs_head by blast
  from 3 show ?case by (auto simp: r)
qed simp_all

lemma successively_no_pair:
  "successively (\<lambda>a b. \<not> (a = c \<and> b = c)) s \<Longrightarrow> s \<noteq> xs @ c # c # ys"
  by (auto simp: successively_append_iff)

lemma printable_space: "printable (CHR '' '')"
  by (simp add: printable_def)

lemma clean_text_unfold:
  "clean_text text =
     sub_runs (CHR 0x0A) (sub_runs (CHR '' '') (map (\<lambda>c. if printable c then c else CHR '' '') text))"
  by (simp add: clean_text_def)

lemma replaced_printable:
  "c \<in> set (map (\<lambda>c. if printable c then c else CHR '' '') text) \<Longrightarrow> printable c"
  using printable_space by auto

lemma clean_text_printable: "c \<in> set (clean_text text) \<Longrightarrow> printable c"
proof -
  assume "c \<in> set (clean_text text)"
  then have "c \<in> set (sub_runs (CHR '' '') (map (\<lambda>c. if printable c then c else CHR '' '') text))"
    unfolding clean_text_unfold using set_sub_runs by blast
  then have "c \<in> set (map (\<lambda>c. if printable c then c else CHR '' '') text)"
    using set_sub_runs by blast
  then show "printable c" by (rule replaced_printable)
qed

lemma clean_text_via_spec:
  "clean_text text = clean_text_spec (map (\<lambda>c. if printable c then c else CHR '' '') text)"
proof -
  have "filter printable (map (\<lambda>c. if printable c then c else CHR '' '') text)
          = map (\<lambda>c. if printable c then c else CHR '' '') text"
    using replaced_printable by (simp only: filter_id_conv) blast
  then show ?thesis unfolding clean_text_unfold clean_text_spec_def by (simp only:)
qed

lemma clean_text_agrees:
  assumes "\<forall>c \<in> set s. printable c"
  shows "clean_text s = clean_text_spec s"
proof -
  have "map (\<lambda>c. if printable c then c else CHR '' '') s = s"
    using assms by (induction s) auto
  moreover have "filter printable s = s"
    using assms by (induction s) auto
  ultimately show ?thesis unfolding clean_text_unfold clean_text_spec_def by (simp only:)
qed

lemma clean_text_no_spaces: "clean_text text \<noteq> xs @ CHR '' '' # CHR '' '' # ys"
  unfolding clean_text_unfold
  by (intro successively_no_pair successively_sub_runs sub_runs_no_pair)

lemma clean_text_no_newlines: "clean_text text \<noteq> xs @ CHR 0x0A # CHR 0x0A # ys"
  unfolding clean_text_unfold
  by (intro successively_no_pair sub_runs_no_pair)

text \<open>
  C7 (as amended). \<open>clean_text\<close> does not strip a non-printable character: it puts a space in
  its place. It then collapses every run of spaces to one space, and then every run of
  newlines to one newline. So the result is what the specification's normalisation gives on
  the text with the spaces put in; it holds printable characters only, no two spaces in a row
  and no two newlines in a row; and on a text of printable characters the two normalisations
  agree.
\<close>

theorem clean_text_replaces:
  "clean_text text = clean_text_spec (map (\<lambda>c. if printable c then c else CHR '' '') text)
   \<and> (\<forall>c \<in> set (clean_text text). printable c)
   \<and> (\<nexists>xs ys. clean_text text = xs @ CHR '' '' # CHR '' '' # ys)
   \<and> (\<nexists>xs ys. clean_text text = xs @ CHR 0x0A # CHR 0x0A # ys)
   \<and> ((\<forall>c \<in> set text. printable c) \<longrightarrow> clean_text text = clean_text_spec text)"
proof (intro conjI ballI impI notI)
  show "clean_text text = clean_text_spec (map (\<lambda>c. if printable c then c else CHR '' '') text)"
    by (rule clean_text_via_spec)
next
  fix c assume "c \<in> set (clean_text text)"
  then show "printable c" by (rule clean_text_printable)
next
  assume "\<exists>xs ys. clean_text text = xs @ CHR '' '' # CHR '' '' # ys"
  then show False using clean_text_no_spaces by blast
next
  assume "\<exists>xs ys. clean_text text = xs @ CHR 0x0A # CHR 0x0A # ys"
  then show False using clean_text_no_newlines by blast
next
  assume "\<forall>c \<in> set text. printable c"
  then show "clean_text text = clean_text_spec text" by (rule clean_text_agrees)
qed


theorem clean_text_replaces_witness:
  "clean_text [CHR ''a'', CHR '' '', CHR 0x80, CHR '' '', CHR ''b'', CHR 0x0A, CHR 0x0A, CHR ''c'']
     = [CHR ''a'', CHR '' '', CHR ''b'', CHR 0x0A, CHR ''c'']
   \<and> printable (CHR ''a'') \<and> printable (CHR '' '') \<and> printable (CHR ''b'')
   \<and> printable (CHR 0x0A) \<and> printable (CHR ''c'')
   \<and> clean_text ''a  b'' = clean_text_spec ''a  b''"
proof -
  have v: "clean_text [CHR ''a'', CHR '' '', CHR 0x80, CHR '' '', CHR ''b'', CHR 0x0A, CHR 0x0A, CHR ''c'']
     = [CHR ''a'', CHR '' '', CHR ''b'', CHR 0x0A, CHR ''c'']"
    by (simp add: clean_text_def printable_def)
  have p: "\<forall>c \<in> set ''a  b''. printable c"
    by (simp add: printable_def)
  from clean_text_replaces [of "[CHR ''a'', CHR '' '', CHR 0x80, CHR '' '', CHR ''b'', CHR 0x0A, CHR 0x0A, CHR ''c'']"]
  have "\<forall>c \<in> set [CHR ''a'', CHR '' '', CHR ''b'', CHR 0x0A, CHR ''c'']. printable c"
    unfolding v by (elim conjE)
  then have q: "printable (CHR ''a'') \<and> printable (CHR '' '') \<and> printable (CHR ''b'')
   \<and> printable (CHR 0x0A) \<and> printable (CHR ''c'')" by simp
  from clean_text_replaces [of "''a  b''"] p
  have "clean_text ''a  b'' = clean_text_spec ''a  b''" by (elim conjE) (erule mp)
  with v q show ?thesis by (intro conjI) (simp_all only:)
qed

text \<open>The claim as stated fails where a non-printable character stands between two others:
  stripping it would join them, \<open>clean_text\<close> keeps them apart.\<close>

theorem clean_text_strips_counterexample:
  "clean_text [CHR ''a'', CHR 0x00, CHR ''b''] = ''a b''
   \<and> clean_text_spec [CHR ''a'', CHR 0x00, CHR ''b''] = ''ab''
   \<and> clean_text [CHR ''a'', CHR 0x00, CHR ''b''] \<noteq> clean_text_spec [CHR ''a'', CHR 0x00, CHR ''b'']"
  by (simp add: clean_text_def clean_text_spec_def printable_def)

subsection \<open>The query loop\<close>


















lemma loop_answered:
  "snd (search_pa_list w (tokenize line)) = Inr answers \<Longrightarrow>
     loop w (Line line # rest) =
       ([Print [], Prompt ''Your query? ''] @ map Print answers @ fst (loop w rest),
        snd (loop w rest))"
  by (simp add: split_beta)



subsection \<open>Failures of the extraction, and the end of the loop\<close>

lemma loop_uncaught:
  "snd (search_pa_list w (tokenize line)) = Inl e \<Longrightarrow> e \<noteq> KeyboardInterrupt \<Longrightarrow> e \<noteq> EOFError \<Longrightarrow>
     loop w (Line line # rest) = ([Print [], Prompt ''Your query? ''], Uncaught e)"
  by simp

lemma loop_caught:
  "snd (search_pa_list w (tokenize line)) = Inl e \<Longrightarrow> e = KeyboardInterrupt \<or> e = EOFError \<Longrightarrow>
     loop w (Line line # rest) = ([Print [], Prompt ''Your query? ''], Exited)"
  by auto

lemma search_table_log:
  "fst (search_table run tbl src) = [(act, mat)] \<Longrightarrow>
     snd (search_table run tbl src) =
       bind_err (run act mat) (\<lambda>answer. Inr (if answer \<noteq> [] then answer else [''No answers'']))"
  by (induction tbl) (auto split: option.splits)

lemma infobox_text_of_no_infobox:
  "get_page_html w topic = Inr html \<Longrightarrow> infobox_texts w html = [] \<Longrightarrow>
     infobox_text_of w topic = Inl (LookupError ''Page has no infobox'')"
  by (simp add: infobox_text_of_def get_first_infobox_text_def bind_err_def)

lemma infobox_text_of_box:
  "get_page_html w topic = Inr html \<Longrightarrow> infobox_texts w html = box # boxes \<Longrightarrow>
     infobox_text_of w topic = Inr (clean_text box)"
  by (simp add: infobox_text_of_def get_first_infobox_text_def bind_err_def)

lemma get_match_none:
  "re_search w pattern text = None \<Longrightarrow>
     get_match w text pattern error_text = Inl (AttributeError error_text)"
  by (simp add: get_match_def)

lemma get_fails:
  assumes "get_page_html w topic = Inr html"
    and "infobox_texts w html = [] \<and> e = LookupError ''Page has no infobox''
           \<or> (\<exists>box boxes. infobox_texts w html = box # boxes
                 \<and> re_search w pattern (clean_text box) = None \<and> e = AttributeError error_text)"
  shows "bind_err (infobox_text_of w topic) (\<lambda>t. bind_err (get_match w t pattern error_text) f)
           = Inl e"
  using assms(2)
proof
  assume "infobox_texts w html = [] \<and> e = LookupError ''Page has no infobox''"
  then have "infobox_text_of w topic = Inl e"
    using infobox_text_of_no_infobox [OF assms(1)] by simp
  then show ?thesis by (simp add: bind_err_def)
next
  assume "\<exists>box boxes. infobox_texts w html = box # boxes
                 \<and> re_search w pattern (clean_text box) = None \<and> e = AttributeError error_text"
  then obtain box boxes where b: "infobox_texts w html = box # boxes"
    "re_search w pattern (clean_text box) = None" "e = AttributeError error_text" by blast
  have "infobox_text_of w topic = Inr (clean_text box)"
    using assms(1) b(1) by (rule infobox_text_of_box)
  moreover have "get_match w (clean_text box) pattern error_text = Inl e"
    using b(2,3) by (simp add: get_match_none)
  ultimately show ?thesis by (simp add: bind_err_def)
qed

lemma extraction_fails:
  assumes "act = Birth_date \<and> topic = str_join '' '' mat \<and> pattern = birth_date_pattern
             \<and> error_text = ''Page infobox has no birth information (at least none in xxxx-xx-xx format)''
           \<or> act = Polar_radius \<and> mat = topic # others \<and> pattern = polar_radius_pattern
             \<and> error_text = ''Page infobox has no polar radius information''"
    and "get_page_html w topic = Inr html"
    and "infobox_texts w html = [] \<and> e = LookupError ''Page has no infobox''
           \<or> (\<exists>box boxes. infobox_texts w html = box # boxes
                 \<and> re_search w pattern (clean_text box) = None \<and> e = AttributeError error_text)"
  shows "call w act mat = Inl e"
  using assms(1)
proof
  assume a: "act = Birth_date \<and> topic = str_join '' '' mat \<and> pattern = birth_date_pattern
             \<and> error_text = ''Page infobox has no birth information (at least none in xxxx-xx-xx format)''"
  have "get_birth_date w topic = Inl e"
    unfolding get_birth_date_def using get_fails [OF assms(2,3)] a by simp
  with a show ?thesis by (simp add: birth_date_def bind_err_def)
next
  assume a: "act = Polar_radius \<and> mat = topic # others \<and> pattern = polar_radius_pattern
             \<and> error_text = ''Page infobox has no polar radius information''"
  have "get_polar_radius w topic = Inl e"
    unfolding get_polar_radius_def using get_fails [OF assms(2,3)] a by simp
  with a show ?thesis by (simp add: polar_radius_def bind_err_def)
qed

text \<open>
  C1 (as amended). Nothing catches a failure of the fact extraction. When the action that the
  search calls is \<open>birth_date\<close> or \<open>polar_radius\<close> and the page of its topic has no infobox, or
  its regular expression finds nothing in the cleaned text of the first infobox, the action
  raises (\<open>LookupError\<close> with \<open>Page has no infobox\<close>, or \<open>AttributeError\<close> with the error text
  of the action), \<open>search_pa_list\<close> raises the same exception, and the query loop, whose
  \<open>except\<close> clause names \<open>KeyboardInterrupt\<close> and \<open>EOFError\<close> only, ends with that exception
  uncaught: it has printed nothing for the query, reads no further query and prints no
  farewell.
\<close>

theorem extraction_failure_ends_loop:
  assumes "fst (search_pa_list w (tokenize line)) = [(act, mat)]"
    and "act = Birth_date \<and> topic = str_join '' '' mat \<and> pattern = birth_date_pattern
             \<and> error_text = ''Page infobox has no birth information (at least none in xxxx-xx-xx format)''
           \<or> act = Polar_radius \<and> mat = topic # others \<and> pattern = polar_radius_pattern
             \<and> error_text = ''Page infobox has no polar radius information''"
    and "get_page_html w topic = Inr html"
    and "infobox_texts w html = [] \<and> e = LookupError ''Page has no infobox''
           \<or> (\<exists>box boxes. infobox_texts w html = box # boxes
                 \<and> re_search w pattern (clean_text box) = None \<and> e = AttributeError error_text)"
  shows "call w act mat = Inl e
         \<and> snd (search_pa_list w (tokenize line)) = Inl e
         \<and> query_loop w (Line line # rest) =
             ([Print ''Welcome to the movie database!\<newline>'', Print [], Prompt ''Your query? ''],
              Uncaught e)"
proof -
  have c: "call w act mat = Inl e" using assms(2,3,4) by (rule extraction_fails)
  have "snd (search_pa_list w (tokenize line)) =
          bind_err (call w act mat) (\<lambda>answer. Inr (if answer \<noteq> [] then answer else [''No answers'']))"
    using assms(1) unfolding search_pa_list_def by (rule search_table_log)
  then have s: "snd (search_pa_list w (tokenize line)) = Inl e" using c by (simp add: bind_err_def)
  have "e \<noteq> KeyboardInterrupt" and "e \<noteq> EOFError" using assms(4) by auto
  with s have "loop w (Line line # rest) = ([Print [], Prompt ''Your query? ''], Uncaught e)"
    by (rule loop_uncaught)
  then have "query_loop w (Line line # rest) =
             ([Print ''Welcome to the movie database!\<newline>'', Print [], Prompt ''Your query? ''],
              Uncaught e)" by (simp add: query_loop_def)
  with c s show ?thesis by (intro conjI)
qed

theorem extraction_failure_ends_loop_witness:
  "fst (search_pa_list bare_world (tokenize ''When was Ada Lovelace born?''))
     = [(Birth_date, [''ada'', ''lovelace''])]
   \<and> get_page_html bare_world ''ada lovelace'' = Inr ''a page with no box''
   \<and> infobox_texts bare_world ''a page with no box'' = []
   \<and> call bare_world Birth_date [''ada'', ''lovelace''] = Inl (LookupError ''Page has no infobox'')
   \<and> query_loop bare_world [Line ''When was Ada Lovelace born?'', Line ''hello'']
       = ([Print ''Welcome to the movie database!\<newline>'', Print [], Prompt ''Your query? ''],
          Uncaught (LookupError ''Page has no infobox''))"
proof -
  have 1: "fst (search_pa_list bare_world (tokenize ''When was Ada Lovelace born?''))
     = [(Birth_date, [''ada'', ''lovelace''])]" by code_simp
  have 2: "Birth_date = Birth_date \<and> ''ada lovelace'' = str_join '' '' [''ada'', ''lovelace'']
      \<and> birth_date_pattern = birth_date_pattern
      \<and> ''Page infobox has no birth information (at least none in xxxx-xx-xx format)''
          = ''Page infobox has no birth information (at least none in xxxx-xx-xx format)''
    \<or> Birth_date = Polar_radius \<and> [''ada'', ''lovelace''] = ''ada lovelace'' # []
      \<and> birth_date_pattern = polar_radius_pattern
      \<and> ''Page infobox has no birth information (at least none in xxxx-xx-xx format)''
          = ''Page infobox has no polar radius information''" by simp
  have 3: "get_page_html bare_world ''ada lovelace'' = Inr ''a page with no box''"
    by (simp add: get_page_html_def bare_world_def bind_err_def)
  have 4: "infobox_texts bare_world ''a page with no box'' = []"
    by (simp add: bare_world_def)
  then have 5: "infobox_texts bare_world ''a page with no box'' = []
        \<and> LookupError ''Page has no infobox'' = LookupError ''Page has no infobox''
      \<or> (\<exists>box boxes. infobox_texts bare_world ''a page with no box'' = box # boxes
            \<and> re_search bare_world birth_date_pattern (clean_text box) = None
            \<and> LookupError ''Page has no infobox''
                = AttributeError ''Page infobox has no birth information (at least none in xxxx-xx-xx format)'')"
    by simp
  from extraction_failure_ends_loop [OF 1 2 3 5, of "[Line ''hello'']"] 1 3 4
  show ?thesis by (intro conjI) (simp_all only:)
qed

text \<open>The claim as stated fails: a birth-date query for a page without infobox, or with an
  infobox without birth date, ends the loop before the next line is read.\<close>

theorem extraction_failure_counterexample:
  "query_loop bare_world [Line ''When was Ada Lovelace born?'', Line ''bye'']
     = ([Print ''Welcome to the movie database!\<newline>'', Print [], Prompt ''Your query? ''],
        Uncaught (LookupError ''Page has no infobox''))
   \<and> query_loop unlabelled_world [Line ''When was Ada Lovelace born?'', Line ''bye'']
     = ([Print ''Welcome to the movie database!\<newline>'', Print [], Prompt ''Your query? ''],
        Uncaught (AttributeError
          ''Page infobox has no birth information (at least none in xxxx-xx-xx format)''))"
  by code_simp

lemma loop_answered_lines:
  "\<forall>l \<in> set lines. \<exists>answers. snd (search_pa_list w (tokenize l)) = Inr answers \<Longrightarrow>
     loop w (map Line lines @ rest) = (replies w lines @ fst (loop w rest), snd (loop w rest))"
proof (induction lines)
  case Nil
  show ?case by (simp add: replies_def)
next
  case (Cons l ls)
  from Cons.prems obtain answers where a: "snd (search_pa_list w (tokenize l)) = Inr answers"
    by auto
  from Cons have ih: "loop w (map Line ls @ rest) = (replies w ls @ fst (loop w rest), snd (loop w rest))"
    by simp
  have "loop w (Line l # map Line ls @ rest) =
          ([Print [], Prompt ''Your query? ''] @ map Print answers @ fst (loop w (map Line ls @ rest)),
           snd (loop w (map Line ls @ rest)))"
    using a by (rule loop_answered)
  also have "\<dots> = (replies w (l # ls) @ fst (loop w rest), snd (loop w rest))"
    using a by (simp add: ih replies_def)
  finally show ?case by simp
qed

lemma search_bye:
  assumes "match [''bye''] src \<noteq> None"
  shows "search_pa_list w src = ([(Bye_action, [])], Inl KeyboardInterrupt)"
proof -
  have "wildcard \<notin> set [''bye'']" by (simp add: wildcard_def)
  from match_literals [OF this, of src] assms have src: "src = [''bye'']"
    by (simp split: if_splits)
  show ?thesis unfolding src
    by (simp add: search_pa_list_def pa_list_patterns wildcard_def bye_action_def bind_err_def)
qed

text \<open>
  C9 (as amended). After any lines that the search answers, which the loop answers in turn
  and which never end it, a line whose tokens match the \<open>bye\<close> pattern makes the search call
  \<open>bye_action\<close>, which raises \<open>KeyboardInterrupt\<close> instead of returning answers; the loop
  prints nothing for that line, prints the farewell once and exits. A line ends the loop
  exactly when its search raises: the exit is the clean one for \<open>KeyboardInterrupt\<close> and
  \<open>EOFError\<close>, and any other exception is left uncaught.
\<close>

theorem bye_ends_loop:
  assumes "\<forall>l \<in> set lines. \<exists>answers. snd (search_pa_list w (tokenize l)) = Inr answers"
  shows "loop w (map Line lines @ rest) = (replies w lines @ fst (loop w rest), snd (loop w rest))
     \<and> (match [''bye''] (tokenize line) \<noteq> None \<longrightarrow>
          search_pa_list w (tokenize line) = ([(Bye_action, [])], Inl KeyboardInterrupt)
          \<and> query_loop w (map Line lines @ Line line # rest) =
              (Print ''Welcome to the movie database!\<newline>'' # replies w lines
                 @ [Print [], Prompt ''Your query? '', Print ''\<newline>So long!\<newline>''], Exited))
     \<and> (snd (search_pa_list w (tokenize line)) = Inl e \<longrightarrow>
          loop w (map Line lines @ Line line # rest) =
            (replies w lines @ [Print [], Prompt ''Your query? ''],
             if e = KeyboardInterrupt \<or> e = EOFError then Exited else Uncaught e))"
proof (intro conjI impI)
  show "loop w (map Line lines @ rest) = (replies w lines @ fst (loop w rest), snd (loop w rest))"
    using assms by (rule loop_answered_lines)
next
  assume "match [''bye''] (tokenize line) \<noteq> None"
  then show b: "search_pa_list w (tokenize line) = ([(Bye_action, [])], Inl KeyboardInterrupt)"
    by (rule search_bye)
  then have "loop w (Line line # rest) = ([Print [], Prompt ''Your query? ''], Exited)"
    by (intro loop_caught [of _ _ KeyboardInterrupt]) simp_all
  with loop_answered_lines [OF assms, of "Line line # rest"]
  show "query_loop w (map Line lines @ Line line # rest) =
              (Print ''Welcome to the movie database!\<newline>'' # replies w lines
                 @ [Print [], Prompt ''Your query? '', Print ''\<newline>So long!\<newline>''], Exited)"
    by (simp add: query_loop_def)
next
  assume e: "snd (search_pa_list w (tokenize line)) = Inl e"
  have "loop w (Line line # rest) =
          ([Print [], Prompt ''Your query? ''],
           if e = KeyboardInterrupt \<or> e = EOFError then Exited else Uncaught e)"
    using e by simp
  with loop_answered_lines [OF assms, of "Line line # rest"]
  show "loop w (map Line lines @ Line line # rest) =
            (replies w lines @ [Print [], Prompt ''Your query? ''],
             if e = KeyboardInterrupt \<or> e = EOFError then Exited else Uncaught e)"
    by simp
qed

theorem bye_ends_loop_witness:
  "snd (search_pa_list turing_world (tokenize ''When was Alan Turing born?'')) = Inr [''1912-06-23'']
   \<and> snd (search_pa_list turing_world (tokenize ''hello'')) = Inr [''I don't understand'']
   \<and> match [''bye''] (tokenize ''Bye?'') = Some []
   \<and> query_loop turing_world
        [Line ''When was Alan Turing born?'', Line ''hello'', Line ''Bye?'', Line ''never read'']
       = ([Print ''Welcome to the movie database!\<newline>'',
           Print [], Prompt ''Your query? '', Print ''1912-06-23'',
           Print [], Prompt ''Your query? '', Print ''I don't understand'',
           Print [], Prompt ''Your query? '', Print ''\<newline>So long!\<newline>''], Exited)
   \<and> snd (search_pa_list turing_world (tokenize ''what is the polar radius of mars''))
       = Inl (AttributeError ''Page infobox has no polar radius information'')
   \<and> loop turing_world
        [Line ''When was Alan Turing born?'', Line ''hello'', Line ''what is the polar radius of mars'']
       = ([Print [], Prompt ''Your query? '', Print ''1912-06-23'',
           Print [], Prompt ''Your query? '', Print ''I don't understand'',
           Print [], Prompt ''Your query? ''],
          Uncaught (AttributeError ''Page infobox has no polar radius information''))"
proof -
  have 1: "snd (search_pa_list turing_world (tokenize ''When was Alan Turing born?'')) = Inr [''1912-06-23'']"
    by code_simp
  have 2: "snd (search_pa_list turing_world (tokenize ''hello'')) = Inr [''I don't understand'']"
    by code_simp
  have 3: "match [''bye''] (tokenize ''Bye?'') = Some []" by code_simp
  have 5: "snd (search_pa_list turing_world (tokenize ''what is the polar radius of mars''))
       = Inl (AttributeError ''Page infobox has no polar radius information'')" by code_simp
  have a: "\<forall>l \<in> set [''When was Alan Turing born?'', ''hello''].
             \<exists>answers. snd (search_pa_list turing_world (tokenize l)) = Inr answers"
    using 1 2 by simp
  have r: "replies turing_world [''When was Alan Turing born?'', ''hello'']
      = [Print [], Prompt ''Your query? '', Print ''1912-06-23'',
         Print [], Prompt ''Your query? '', Print ''I don't understand'']"
    by (simp add: replies_def 1 2)
  from bye_ends_loop [OF a, of "[Line ''never read'']" "''Bye?''"] 3 r
  have q: "query_loop turing_world
        [Line ''When was Alan Turing born?'', Line ''hello'', Line ''Bye?'', Line ''never read'']
       = ([Print ''Welcome to the movie database!\<newline>'',
           Print [], Prompt ''Your query? '', Print ''1912-06-23'',
           Print [], Prompt ''Your query? '', Print ''I don't understand'',
           Print [], Prompt ''Your query? '', Print ''\<newline>So long!\<newline>''], Exited)"
    by simp
  from bye_ends_loop [OF a, of "[]" "''what is the polar radius of mars''"
      "AttributeError ''Page infobox has no polar radius information''"] 5 r
  have l: "loop turing_world
        [Line ''When was Alan Turing born?'', Line ''hello'', Line ''what is the polar radius of mars'']
       = ([Print [], Prompt ''Your query? '', Print ''1912-06-23'',
           Print [], Prompt ''Your query? '', Print ''I don't understand'',
           Print [], Prompt ''Your query? ''],
          Uncaught (AttributeError ''Page infobox has no polar radius information''))"
    by simp
  from 1 2 3 5 q l show ?thesis by (intro conjI)
qed

text \<open>The last part of the claim as stated fails: a query that does not match \<open>bye\<close> ends
  the loop when its extraction fails.\<close>

theorem only_bye_ends_loop_counterexample:
  "match [''bye''] (tokenize ''What is the polar radius of Mars?'') = None
   \<and> query_loop unlabelled_world [Line ''What is the polar radius of Mars?'', Line ''hello'']
     = ([Print ''Welcome to the movie database!\<newline>'', Print [], Prompt ''Your query? ''],
        Uncaught (AttributeError ''Page infobox has no polar radius information''))"
  by code_simp

end
